theory Spec2Isabelle
  imports Main
begin

section \<open>Data model of wangle::SSLContextConfig\<close>

text \<open>
  The embedded source is \<^verbatim>\<open>wangle/ssl/SSLContextConfig.h\<close>. Structs are records with the
  fields in declaration order, enums are datatypes, \<^verbatim>\<open>std::string\<close> is \<^typ>\<open>string\<close>,
  \<^verbatim>\<open>std::vector\<close> and \<^verbatim>\<open>std::list\<close> are HOL lists, \<^verbatim>\<open>std::set\<close> is a HOL set and
  \<^verbatim>\<open>folly::Optional\<close> is \<^typ>\<open>'a option\<close>. A member function that mutates \<^verbatim>\<open>this\<close>
  takes the configuration and returns the updated one, or an error where the source reads
  an object that no longer exists.
\<close>

subsection \<open>CertificateInfo\<close>

record CertificateInfo =
  certPath :: string
  keyPath :: string
  passwordPath :: string
  isBuffer :: bool

text \<open>
  The three-argument constructor initialises the three strings; \<^verbatim>\<open>isBuffer\<close> keeps its
  default member initialiser \<^verbatim>\<open>false\<close>.
\<close>

definition CertificateInfo_paths :: "string \<Rightarrow> string \<Rightarrow> string \<Rightarrow> CertificateInfo" where
  "CertificateInfo_paths crtPath kyPath passwdPath =
     \<lparr>certPath = crtPath, keyPath = kyPath, passwordPath = passwdPath, isBuffer = False\<rparr>"

text \<open>
  The two-argument constructor initialises \<^verbatim>\<open>certPath\<close>, \<^verbatim>\<open>keyPath\<close> and
  \<^verbatim>\<open>isBuffer(true)\<close>; \<^verbatim>\<open>passwordPath\<close> is default-constructed, the empty string.
\<close>

definition CertificateInfo_bufs :: "string \<Rightarrow> string \<Rightarrow> CertificateInfo" where
  "CertificateInfo_bufs crtBuf kyBuf =
     \<lparr>certPath = crtBuf, keyPath = kyBuf, passwordPath = [], isBuffer = True\<rparr>"

subsection \<open>IssuerType, DelegatedCredInfo, KeyOffloadParams\<close>

datatype IssuerType = PUBLIC_CA | PROD_CA | PUBLIC_TO_PRODCA

record DelegatedCredInfo =
  combinedCertPath :: string

record KeyOffloadParams =
  offloadType :: "string set"
  serviceId :: string
  enableCertOffload :: bool

text \<open>The default member initialisers of \<^verbatim>\<open>KeyOffloadParams\<close>.\<close>

definition KeyOffloadParams_default :: KeyOffloadParams where
  "KeyOffloadParams_default =
     \<lparr>offloadType = {}, serviceId = ''default'', enableCertOffload = False\<rparr>"

subsection \<open>Types declared in folly\<close>

text \<open>
  Modelled from the spec: \<^verbatim>\<open>folly::SSLContext::NextProtocolsItem\<close> is declared in folly's
  SSLContext header, which is not part of the embedded source. The spec describes an
  advertisement entry as pairing a weight with an ordered sequence of protocol name
  strings; the source constructs one from these two values, in this order.
\<close>

record NextProtocolsItem =
  weight :: int
  protocols :: "string list"

text \<open>
  Modelled from the spec: \<^verbatim>\<open>folly::SSLContext::VerifyClientCertificate\<close> is declared in
  folly as well. The spec lists the variants always-verify, optional and none; the source
  names only \<^verbatim>\<open>ALWAYS\<close>.
\<close>

datatype VerifyClientCertificate = ALWAYS | IF_PRESENTED | DO_NOT_REQUEST

text \<open>
  Modelled from the spec: \<^verbatim>\<open>folly::SSLContext::SSLVersion\<close> is the protocol-version floor,
  declared in folly; the source names only \<^verbatim>\<open>TLSv1_2\<close>.
\<close>

datatype SSLVersion = SSLv2 | SSLv3 | TLSv1 | TLSv1_2 | TLSv1_3

subsection \<open>Process-wide default strings\<close>

text \<open>
  \<^verbatim>\<open>folly::ssl::SSLServerOptions\<close> supplies the canonical lists of cipher, ciphersuite and
  signature-algorithm names. Its tables are not part of the embedded source, so they are
  a parameter: the record holds what the three accessors return when they are called.
\<close>

record SSLServerOptions =
  ciphers :: "string list"
  ciphersuites :: "string list"
  sigalgs :: "string list"

text \<open>
  Modelled from the spec: \<^verbatim>\<open>folly::join\<close> is not part of the embedded source. The spec says
  the defaults are colon-delimited strings built by joining an ordered list of names: the
  names in order, with the delimiter between two neighbours.
\<close>

fun join :: "char \<Rightarrow> string list \<Rightarrow> string" where
  "join d [] = []"
| "join d [x] = x"
| "join d (x # y # ys) = x @ d # join d (y # ys)"

text \<open>
  Each getter holds a function-local \<^verbatim>\<open>static\<close>: it is initialised by the first call that
  reaches it and read by every later call. The three statics are the process state:
  \<^const>\<open>None\<close> before the first call, \<open>Some s\<close> afterwards.
\<close>

record statics =
  defaultCiphers :: "string option"
  defaultCiphersuites :: "string option"
  defaultSigAlgs :: "string option"

definition statics_init :: statics where
  "statics_init = \<lparr>defaultCiphers = None, defaultCiphersuites = None, defaultSigAlgs = None\<rparr>"

definition getDefaultCiphers :: "SSLServerOptions \<Rightarrow> statics \<Rightarrow> string \<times> statics" where
  "getDefaultCiphers opts st =
     (case defaultCiphers st of
        Some s \<Rightarrow> (s, st)
      | None \<Rightarrow> (join CHR '':'' (ciphers opts),
                 st\<lparr>defaultCiphers := Some (join CHR '':'' (ciphers opts))\<rparr>))"

definition getDefaultCiphersuites :: "SSLServerOptions \<Rightarrow> statics \<Rightarrow> string \<times> statics" where
  "getDefaultCiphersuites opts st =
     (case defaultCiphersuites st of
        Some s \<Rightarrow> (s, st)
      | None \<Rightarrow> (join CHR '':'' (ciphersuites opts),
                 st\<lparr>defaultCiphersuites := Some (join CHR '':'' (ciphersuites opts))\<rparr>))"

definition getDefaultSigAlgs :: "SSLServerOptions \<Rightarrow> statics \<Rightarrow> string \<times> statics" where
  "getDefaultSigAlgs opts st =
     (case defaultSigAlgs st of
        Some s \<Rightarrow> (s, st)
      | None \<Rightarrow> (join CHR '':'' (sigalgs opts),
                 st\<lparr>defaultSigAlgs := Some (join CHR '':'' (sigalgs opts))\<rparr>))"

subsection \<open>SSLContextConfig\<close>

text \<open>
  The struct is open to inheritance (its destructor and \<^verbatim>\<open>setCertificate\<close> are virtual).
  A record is extensible in the same way: the operations below are stated on the record
  scheme, so they also apply to a configuration that carries the fields of a subclass.
\<close>

record SSLContextConfig =
  certificates :: "CertificateInfo list"
  delegatedCredentials :: "DelegatedCredInfo list"
  sslVersion :: SSLVersion
  sessionCacheEnabled :: bool
  sessionTicketEnabled :: bool
  sslCiphers :: string
  sslCiphersuites :: string
  sigAlgs :: string
  eccCurveName :: string
  nextProtocols :: "NextProtocolsItem list"
  isLocalPrivateKey :: bool
  isDefault :: bool
  clientCAFile :: string
  clientCAFiles :: "string list"
  clientVerification :: VerifyClientCertificate
  keyOffloadParams :: KeyOffloadParams
  offloadDisabled :: bool
  domains :: "string list"
  shouldLoadFromProdCA :: bool
  issuerType :: IssuerType
  sessionContext :: "string option"
  alpnAllowMismatch :: bool

text \<open>
  The defaulted default constructor: every member takes its default member initialiser,
  in declaration order. The three policy strings call their getters in that order, so the
  constructor reads and may initialise the process statics.
\<close>

definition SSLContextConfig_new :: "SSLServerOptions \<Rightarrow> statics \<Rightarrow> SSLContextConfig \<times> statics" where
  "SSLContextConfig_new opts st0 =
     (case getDefaultCiphers opts st0 of (c, st1) \<Rightarrow>
      case getDefaultCiphersuites opts st1 of (cs, st2) \<Rightarrow>
      case getDefaultSigAlgs opts st2 of (sa, st3) \<Rightarrow>
        (\<lparr>certificates = [],
          delegatedCredentials = [],
          sslVersion = TLSv1_2,
          sessionCacheEnabled = True,
          sessionTicketEnabled = True,
          sslCiphers = c,
          sslCiphersuites = cs,
          sigAlgs = sa,
          eccCurveName = ''prime256v1'',
          nextProtocols = [],
          isLocalPrivateKey = True,
          isDefault = False,
          clientCAFile = [],
          clientCAFiles = [],
          clientVerification = ALWAYS,
          keyOffloadParams = KeyOffloadParams_default,
          offloadDisabled = True,
          domains = [],
          shouldLoadFromProdCA = False,
          issuerType = PUBLIC_CA,
          sessionContext = None,
          alpnAllowMismatch = True\<rparr>, st3))"

text \<open>
  Two configurations used as concrete inputs below: canonical lists of the kind folly
  supplies, and the configuration the default constructor builds from them in a process
  whose statics are not yet initialised.
\<close>

abbreviation example_options :: SSLServerOptions where
  "example_options \<equiv>
     \<lparr>ciphers = [''AES128-SHA'', ''AES256-SHA''], ciphersuites = [''TLS_AES_128_GCM_SHA256''],
      sigalgs = [''rsa_pss_pss_sha512'']\<rparr>"

abbreviation example_config :: SSLContextConfig where
  "example_config \<equiv> fst (SSLContextConfig_new example_options statics_init)"

section \<open>Builder operations\<close>

subsection \<open>Reference parameters\<close>

text \<open>
  Every builder operation binds its arguments as references to const
  (\<^verbatim>\<open>const std::string&\<close>, \<^verbatim>\<open>const std::list<std::string>&\<close>) and reads them when it
  constructs the new element. What such a read yields depends on where the referenced
  object lives. An argument is therefore one of:
  \<^item> \<open>Val s\<close> (\<open>ListVal l\<close>): a reference to an object with contents \<open>s\<close> (\<open>l\<close>) that is
    not held in one of the three containers the builder operations write (a literal, a
    local variable, a member of another object, any other member of this configuration).
    No builder operation destroys or changes it, so it reads as its contents;
  \<^item> a reference to a string or list held inside \<^verbatim>\<open>certificates\<close>, \<^verbatim>\<open>delegatedCredentials\<close>
    or \<^verbatim>\<open>nextProtocols\<close> of the configuration the operation is called on, named by its
    position at the time of the call.

  \<^verbatim>\<open>clear()\<close> destroys the elements of its container. Reading through a reference to a
  destroyed object is undefined behaviour in the source; the model makes it the error
  \<open>DanglingReference\<close>, and so does a reference to a position that does not exist.
\<close>

datatype error = DanglingReference

datatype string_ref =
    Val string
  | CertPathRef nat
  | KeyPathRef nat
  | PasswordPathRef nat
  | CombinedCertPathRef nat
  | ProtocolRef nat nat

datatype string_list_ref =
    ListVal "string list"
  | ProtocolsRef nat

fun read_string :: "'a SSLContextConfig_scheme \<Rightarrow> string_ref \<Rightarrow> error + string" where
  "read_string cfg (Val s) = Inr s"
| "read_string cfg (CertPathRef i) =
     (if i < length (certificates cfg) then Inr (certPath (certificates cfg ! i))
      else Inl DanglingReference)"
| "read_string cfg (KeyPathRef i) =
     (if i < length (certificates cfg) then Inr (keyPath (certificates cfg ! i))
      else Inl DanglingReference)"
| "read_string cfg (PasswordPathRef i) =
     (if i < length (certificates cfg) then Inr (passwordPath (certificates cfg ! i))
      else Inl DanglingReference)"
| "read_string cfg (CombinedCertPathRef i) =
     (if i < length (delegatedCredentials cfg)
      then Inr (combinedCertPath (delegatedCredentials cfg ! i))
      else Inl DanglingReference)"
| "read_string cfg (ProtocolRef i j) =
     (if i < length (nextProtocols cfg)
      then (if j < length (protocols (nextProtocols cfg ! i))
            then Inr (protocols (nextProtocols cfg ! i) ! j)
            else Inl DanglingReference)
      else Inl DanglingReference)"

fun read_strings :: "'a SSLContextConfig_scheme \<Rightarrow> string_list_ref \<Rightarrow> error + string list" where
  "read_strings cfg (ListVal l) = Inr l"
| "read_strings cfg (ProtocolsRef i) =
     (if i < length (nextProtocols cfg) then Inr (protocols (nextProtocols cfg ! i))
      else Inl DanglingReference)"

subsection \<open>The operations\<close>

text \<open>
  \<^verbatim>\<open>emplace_back\<close> constructs the new element from its arguments and appends it; the
  element is constructed before the container gives up any old storage, so an add
  operation reads its arguments in the state of the call, and the constructor copies
  \<^verbatim>\<open>certPath\<close>, \<^verbatim>\<open>keyPath\<close>, \<^verbatim>\<open>passwordPath\<close> in this order. Each set operation calls
  \<^verbatim>\<open>clear()\<close> first and then its add operation with the same references, as in the source:
  the arguments are read in the cleared configuration.
\<close>

definition addCertificate ::
  "'a SSLContextConfig_scheme \<Rightarrow> string_ref \<Rightarrow> string_ref \<Rightarrow> string_ref
     \<Rightarrow> error + 'a SSLContextConfig_scheme" where
  "addCertificate cfg crtPath kyPath passwdPath =
     (case read_string cfg crtPath of
        Inl e \<Rightarrow> Inl e
      | Inr c \<Rightarrow>
          (case read_string cfg kyPath of
             Inl e \<Rightarrow> Inl e
           | Inr k \<Rightarrow>
               (case read_string cfg passwdPath of
                  Inl e \<Rightarrow> Inl e
                | Inr p \<Rightarrow>
                    Inr (cfg\<lparr>certificates :=
                              certificates cfg @ [CertificateInfo_paths c k p]\<rparr>))))"

definition setCertificate ::
  "'a SSLContextConfig_scheme \<Rightarrow> string_ref \<Rightarrow> string_ref \<Rightarrow> string_ref
     \<Rightarrow> error + 'a SSLContextConfig_scheme" where
  "setCertificate cfg crtPath kyPath passwdPath =
     addCertificate (cfg\<lparr>certificates := []\<rparr>) crtPath kyPath passwdPath"

definition addCertificateBuf ::
  "'a SSLContextConfig_scheme \<Rightarrow> string_ref \<Rightarrow> string_ref \<Rightarrow> error + 'a SSLContextConfig_scheme" where
  "addCertificateBuf cfg cert ky =
     (case read_string cfg cert of
        Inl e \<Rightarrow> Inl e
      | Inr c \<Rightarrow>
          (case read_string cfg ky of
             Inl e \<Rightarrow> Inl e
           | Inr k \<Rightarrow>
               Inr (cfg\<lparr>certificates := certificates cfg @ [CertificateInfo_bufs c k]\<rparr>)))"

definition setCertificateBuf ::
  "'a SSLContextConfig_scheme \<Rightarrow> string_ref \<Rightarrow> string_ref \<Rightarrow> error + 'a SSLContextConfig_scheme" where
  "setCertificateBuf cfg cert ky = addCertificateBuf (cfg\<lparr>certificates := []\<rparr>) cert ky"

definition addDelegatedCredential ::
  "'a SSLContextConfig_scheme \<Rightarrow> string_ref \<Rightarrow> error + 'a SSLContextConfig_scheme" where
  "addDelegatedCredential cfg credPath =
     (case read_string cfg credPath of
        Inl e \<Rightarrow> Inl e
      | Inr p \<Rightarrow>
          Inr (cfg\<lparr>delegatedCredentials :=
                    delegatedCredentials cfg @ [\<lparr>combinedCertPath = p\<rparr>]\<rparr>))"

definition setDelegatedCredential ::
  "'a SSLContextConfig_scheme \<Rightarrow> string_ref \<Rightarrow> error + 'a SSLContextConfig_scheme" where
  "setDelegatedCredential cfg credPath =
     addDelegatedCredential (cfg\<lparr>delegatedCredentials := []\<rparr>) credPath"

definition setNextProtocols ::
  "'a SSLContextConfig_scheme \<Rightarrow> string_list_ref \<Rightarrow> error + 'a SSLContextConfig_scheme" where
  "setNextProtocols cfg inNextProtocols =
     (case read_strings (cfg\<lparr>nextProtocols := []\<rparr>) inNextProtocols of
        Inl e \<Rightarrow> Inl e
      | Inr l \<Rightarrow>
          Inr ((cfg\<lparr>nextProtocols := []\<rparr>)
                 \<lparr>nextProtocols := nextProtocols (cfg\<lparr>nextProtocols := []\<rparr>)
                                     @ [\<lparr>weight = 1, protocols = l\<rparr>]\<rparr>))"

subsection \<open>Sequences of builder calls\<close>

text \<open>
  A caller populates a configuration by a sequence of calls. One constructor per builder
  operation records a call with its arguments; \<open>apply_calls\<close> runs them left to right and
  stops at the first call that reads a dangling reference, since nothing is known of the
  program after undefined behaviour.
\<close>

datatype call =
    SetCertificate string_ref string_ref string_ref
  | AddCertificate string_ref string_ref string_ref
  | SetCertificateBuf string_ref string_ref
  | AddCertificateBuf string_ref string_ref
  | SetDelegatedCredential string_ref
  | AddDelegatedCredential string_ref
  | SetNextProtocols string_list_ref

fun apply_call ::
  "'a SSLContextConfig_scheme \<Rightarrow> call \<Rightarrow> error + 'a SSLContextConfig_scheme" where
  "apply_call cfg (SetCertificate c k p) = setCertificate cfg c k p"
| "apply_call cfg (AddCertificate c k p) = addCertificate cfg c k p"
| "apply_call cfg (SetCertificateBuf c k) = setCertificateBuf cfg c k"
| "apply_call cfg (AddCertificateBuf c k) = addCertificateBuf cfg c k"
| "apply_call cfg (SetDelegatedCredential p) = setDelegatedCredential cfg p"
| "apply_call cfg (AddDelegatedCredential p) = addDelegatedCredential cfg p"
| "apply_call cfg (SetNextProtocols ps) = setNextProtocols cfg ps"

fun apply_calls ::
  "'a SSLContextConfig_scheme \<Rightarrow> call list \<Rightarrow> error + 'a SSLContextConfig_scheme" where
  "apply_calls cfg [] = Inr cfg"
| "apply_calls cfg (c # cs) =
     (case apply_call cfg c of Inl e \<Rightarrow> Inl e | Inr cfg' \<Rightarrow> apply_calls cfg' cs)"

text \<open>
  A call all of whose arguments are objects outside the three containers: the calls a
  configuration loader makes with strings of its own.
\<close>

fun is_val :: "string_ref \<Rightarrow> bool" where
  "is_val (Val s) = True"
| "is_val other = False"

fun is_list_val :: "string_list_ref \<Rightarrow> bool" where
  "is_list_val (ListVal l) = True"
| "is_list_val other = False"

fun is_value_call :: "call \<Rightarrow> bool" where
  "is_value_call (SetCertificate c k p) = (is_val c \<and> is_val k \<and> is_val p)"
| "is_value_call (AddCertificate c k p) = (is_val c \<and> is_val k \<and> is_val p)"
| "is_value_call (SetCertificateBuf c k) = (is_val c \<and> is_val k)"
| "is_value_call (AddCertificateBuf c k) = (is_val c \<and> is_val k)"
| "is_value_call (SetDelegatedCredential p) = is_val p"
| "is_value_call (AddDelegatedCredential p) = is_val p"
| "is_value_call (SetNextProtocols ps) = is_list_val ps"

text \<open>
  A run of \<^verbatim>\<open>addCertificate\<close> calls with arguments of the caller's own, given by the
  argument triples in call order, and the file-sourced entries with these strings, in the
  same order, with every field written out.
\<close>

definition add_calls :: "(string \<times> string \<times> string) list \<Rightarrow> call list" where
  "add_calls xs = map (\<lambda>(c, k, p). AddCertificate (Val c) (Val k) (Val p)) xs"

definition file_entries :: "(string \<times> string \<times> string) list \<Rightarrow> CertificateInfo list" where
  "file_entries xs =
     map (\<lambda>(c, k, p). \<lparr>certPath = c, keyPath = k, passwordPath = p, isBuffer = False\<rparr>) xs"

text \<open>
  An ambiguous entry: buffer semantics together with a password locator.
\<close>

definition ambiguous :: "CertificateInfo \<Rightarrow> bool" where
  "ambiguous e = (isBuffer e \<and> passwordPath e \<noteq> [])"

subsection \<open>Shared facts about the operations\<close>

text \<open>Arguments of the caller's own: each operation returns, with exactly this result.\<close>

lemma addCertificate_Val:
  "addCertificate cfg (Val c) (Val k) (Val p) =
     Inr (cfg\<lparr>certificates := certificates cfg
            @ [\<lparr>certPath = c, keyPath = k, passwordPath = p, isBuffer = False\<rparr>]\<rparr>)"
  by (simp add: addCertificate_def CertificateInfo_paths_def)

lemma setCertificate_Val:
  "setCertificate cfg (Val c) (Val k) (Val p) =
     Inr (cfg\<lparr>certificates := [\<lparr>certPath = c, keyPath = k, passwordPath = p, isBuffer = False\<rparr>]\<rparr>)"
  by (simp add: setCertificate_def addCertificate_def CertificateInfo_paths_def)

lemma addCertificateBuf_Val:
  "addCertificateBuf cfg (Val c) (Val k) =
     Inr (cfg\<lparr>certificates := certificates cfg
            @ [\<lparr>certPath = c, keyPath = k, passwordPath = [], isBuffer = True\<rparr>]\<rparr>)"
  by (simp add: addCertificateBuf_def CertificateInfo_bufs_def)

lemma setCertificateBuf_Val:
  "setCertificateBuf cfg (Val c) (Val k) =
     Inr (cfg\<lparr>certificates := [\<lparr>certPath = c, keyPath = k, passwordPath = [], isBuffer = True\<rparr>]\<rparr>)"
  by (simp add: setCertificateBuf_def addCertificateBuf_def CertificateInfo_bufs_def)

lemma addDelegatedCredential_Val:
  "addDelegatedCredential cfg (Val p) =
     Inr (cfg\<lparr>delegatedCredentials := delegatedCredentials cfg @ [\<lparr>combinedCertPath = p\<rparr>]\<rparr>)"
  by (simp add: addDelegatedCredential_def)

lemma setDelegatedCredential_Val:
  "setDelegatedCredential cfg (Val p) =
     Inr (cfg\<lparr>delegatedCredentials := [\<lparr>combinedCertPath = p\<rparr>]\<rparr>)"
  by (simp add: setDelegatedCredential_def addDelegatedCredential_def)

lemma setNextProtocols_Val:
  "setNextProtocols cfg (ListVal l) = Inr (cfg\<lparr>nextProtocols := [\<lparr>weight = 1, protocols = l\<rparr>]\<rparr>)"
  by (simp add: setNextProtocols_def)

text \<open>Any arguments: an operation that returns has changed its one list, in this way.\<close>

lemma addCertificate_Inr:
  assumes "addCertificate cfg a b c = Inr cfg'"
  shows "\<exists>x y z. cfg' = cfg\<lparr>certificates := certificates cfg
            @ [\<lparr>certPath = x, keyPath = y, passwordPath = z, isBuffer = False\<rparr>]\<rparr>"
  using assms
  by (auto simp add: addCertificate_def CertificateInfo_paths_def split: sum.splits)

lemma setCertificate_Inr:
  assumes "setCertificate cfg a b c = Inr cfg'"
  shows "\<exists>x y z. cfg' = cfg\<lparr>certificates :=
            [\<lparr>certPath = x, keyPath = y, passwordPath = z, isBuffer = False\<rparr>]\<rparr>"
  using addCertificate_Inr [of "cfg\<lparr>certificates := []\<rparr>" a b c cfg'] assms
  by (simp add: setCertificate_def)

lemma addCertificateBuf_Inr:
  assumes "addCertificateBuf cfg a b = Inr cfg'"
  shows "\<exists>x y. cfg' = cfg\<lparr>certificates := certificates cfg
            @ [\<lparr>certPath = x, keyPath = y, passwordPath = [], isBuffer = True\<rparr>]\<rparr>"
  using assms
  by (auto simp add: addCertificateBuf_def CertificateInfo_bufs_def split: sum.splits)

lemma setCertificateBuf_Inr:
  assumes "setCertificateBuf cfg a b = Inr cfg'"
  shows "\<exists>x y. cfg' = cfg\<lparr>certificates :=
            [\<lparr>certPath = x, keyPath = y, passwordPath = [], isBuffer = True\<rparr>]\<rparr>"
  using addCertificateBuf_Inr [of "cfg\<lparr>certificates := []\<rparr>" a b cfg'] assms
  by (simp add: setCertificateBuf_def)

lemma addDelegatedCredential_Inr:
  assumes "addDelegatedCredential cfg a = Inr cfg'"
  shows "\<exists>x. cfg' = cfg\<lparr>delegatedCredentials :=
            delegatedCredentials cfg @ [\<lparr>combinedCertPath = x\<rparr>]\<rparr>"
  using assms
  by (auto simp add: addDelegatedCredential_def split: sum.splits)

lemma setDelegatedCredential_Inr:
  assumes "setDelegatedCredential cfg a = Inr cfg'"
  shows "\<exists>x. cfg' = cfg\<lparr>delegatedCredentials := [\<lparr>combinedCertPath = x\<rparr>]\<rparr>"
  using addDelegatedCredential_Inr [of "cfg\<lparr>delegatedCredentials := []\<rparr>" a cfg'] assms
  by (simp add: setDelegatedCredential_def)

lemma setNextProtocols_Inr:
  assumes "setNextProtocols cfg a = Inr cfg'"
  shows "\<exists>l. cfg' = cfg\<lparr>nextProtocols := [\<lparr>weight = 1, protocols = l\<rparr>]\<rparr>"
  using assms
  by (auto simp add: setNextProtocols_def split: sum.splits)

text \<open>Calls with arguments of the caller's own always return.\<close>

lemma is_val_read_string: "is_val r \<Longrightarrow> \<exists>s. r = Val s"
  by (cases r) simp_all

lemma is_list_val_read_strings: "is_list_val r \<Longrightarrow> \<exists>l. r = ListVal l"
  by (cases r) simp_all

lemma value_call_returns: "is_value_call c \<Longrightarrow> \<exists>cfg'. apply_call cfg c = Inr cfg'"
proof (cases c)
  case (SetCertificate x1 x2 x3)
  moreover assume "is_value_call c"
  ultimately show ?thesis
    by (auto dest!: is_val_read_string simp add: setCertificate_Val)
next
  case (AddCertificate x1 x2 x3)
  moreover assume "is_value_call c"
  ultimately show ?thesis
    by (auto dest!: is_val_read_string simp add: addCertificate_Val)
next
  case (SetCertificateBuf x1 x2)
  moreover assume "is_value_call c"
  ultimately show ?thesis
    by (auto dest!: is_val_read_string simp add: setCertificateBuf_Val)
next
  case (AddCertificateBuf x1 x2)
  moreover assume "is_value_call c"
  ultimately show ?thesis
    by (auto dest!: is_val_read_string simp add: addCertificateBuf_Val)
next
  case (SetDelegatedCredential x)
  moreover assume "is_value_call c"
  ultimately show ?thesis
    by (auto dest!: is_val_read_string simp add: setDelegatedCredential_Val)
next
  case (AddDelegatedCredential x)
  moreover assume "is_value_call c"
  ultimately show ?thesis
    by (auto dest!: is_val_read_string simp add: addDelegatedCredential_Val)
next
  case (SetNextProtocols x)
  moreover assume "is_value_call c"
  ultimately show ?thesis
    by (auto dest!: is_list_val_read_strings simp add: setNextProtocols_Val)
qed

lemma value_calls_return:
  "list_all is_value_call cs \<Longrightarrow> \<exists>cfg'. apply_calls cfg cs = Inr cfg'"
proof (induction cs arbitrary: cfg)
  case Nil
  show ?case by simp
next
  case (Cons c cs)
  from Cons.prems have c: "is_value_call c" and cs: "list_all is_value_call cs" by simp_all
  from value_call_returns [OF c] obtain cfg1 where "apply_call cfg c = Inr cfg1" ..
  with Cons.IH [OF cs, of cfg1] show ?case by simp
qed

lemma apply_calls_append:
  "apply_calls cfg (cs @ ds) =
     (case apply_calls cfg cs of Inl e \<Rightarrow> Inl e | Inr cfg' \<Rightarrow> apply_calls cfg' ds)"
  by (induction cs arbitrary: cfg) (simp_all split: sum.splits)

lemma certificates_new: "certificates (fst (SSLContextConfig_new opts st)) = []"
  by (simp add: SSLContextConfig_new_def split: prod.splits)

lemma delegatedCredentials_new: "delegatedCredentials (fst (SSLContextConfig_new opts st)) = []"
  by (simp add: SSLContextConfig_new_def split: prod.splits)

lemma nextProtocols_new: "nextProtocols (fst (SSLContextConfig_new opts st)) = []"
  by (simp add: SSLContextConfig_new_def split: prod.splits)

text \<open>What one call that returns does to the certificates list.\<close>

lemma apply_call_certificates:
  assumes "apply_call cfg c = Inr cfg'"
  shows "certificates cfg' = certificates cfg
       \<or> (\<exists>e. (certificates cfg' = certificates cfg @ [e] \<or> certificates cfg' = [e])
              \<and> (isBuffer e \<longrightarrow> passwordPath e = []))"
proof (cases c)
  case (SetCertificate x1 x2 x3)
  with assms setCertificate_Inr [of cfg x1 x2 x3 cfg'] show ?thesis by auto
next
  case (AddCertificate x1 x2 x3)
  with assms addCertificate_Inr [of cfg x1 x2 x3 cfg'] show ?thesis by auto
next
  case (SetCertificateBuf x1 x2)
  with assms setCertificateBuf_Inr [of cfg x1 x2 cfg'] show ?thesis by auto
next
  case (AddCertificateBuf x1 x2)
  with assms addCertificateBuf_Inr [of cfg x1 x2 cfg'] show ?thesis by auto
next
  case (SetDelegatedCredential x)
  with assms setDelegatedCredential_Inr [of cfg x cfg'] show ?thesis by auto
next
  case (AddDelegatedCredential x)
  with assms addDelegatedCredential_Inr [of cfg x cfg'] show ?thesis by auto
next
  case (SetNextProtocols x)
  with assms setNextProtocols_Inr [of cfg x cfg'] show ?thesis by auto
qed

text \<open>
  What the code does for arguments of the caller's own: a run of add calls extends the
  list in call order, and a set call followed by add calls leaves that call's entry
  followed by theirs, whatever was called before.
\<close>

lemma add_calls_result:
  "apply_calls cfg (add_calls xs) =
     Inr (cfg\<lparr>certificates := certificates cfg @ file_entries xs\<rparr>)"
proof (induction xs arbitrary: cfg)
  case Nil
  show ?case by (simp add: add_calls_def file_entries_def)
next
  case (Cons x xs)
  obtain c k p where x: "x = (c, k, p)" by (cases x) auto
  show ?case
    using Cons.IH
    by (simp add: add_calls_def file_entries_def x addCertificate_Val)
qed

lemma set_then_add_calls_result:
  assumes "apply_calls cfg pre = Inr cfg1"
  shows "apply_calls cfg (pre @ SetCertificate (Val c) (Val k) (Val p) # add_calls xs) =
     Inr (cfg1\<lparr>certificates :=
            \<lparr>certPath = c, keyPath = k, passwordPath = p, isBuffer = False\<rparr> # file_entries xs\<rparr>)"
  using assms by (simp add: apply_calls_append setCertificate_Val add_calls_result)

lemma add_credential_calls_result:
  "apply_calls cfg (map (\<lambda>p. AddDelegatedCredential (Val p)) ps) =
     Inr (cfg\<lparr>delegatedCredentials :=
            delegatedCredentials cfg @ map (\<lambda>p. \<lparr>combinedCertPath = p\<rparr>) ps\<rparr>)"
  by (induction ps arbitrary: cfg) (simp_all add: addDelegatedCredential_Val)

lemma set_then_add_credential_calls_result:
  assumes "apply_calls cfg pre = Inr cfg1"
  shows "apply_calls cfg
      (pre @ SetDelegatedCredential (Val p) # map (\<lambda>q. AddDelegatedCredential (Val q)) ps) =
     Inr (cfg1\<lparr>delegatedCredentials :=
            \<lparr>combinedCertPath = p\<rparr> # map (\<lambda>q. \<lparr>combinedCertPath = q\<rparr>) ps\<rparr>)"
  using assms
  by (simp add: apply_calls_append setDelegatedCredential_Val add_credential_calls_result)

section \<open>Certificate builder\<close>

text \<open>
  C1, as the specification states it, says that for every sequence of \<^verbatim>\<open>setCertificate\<close>
  and \<^verbatim>\<open>addCertificate\<close> calls the certificates list is the entry of the last set call
  followed by the entries of the add calls after it. The source does not do this for
  every call. \<^verbatim>\<open>setCertificate\<close> clears
  the list before \<^verbatim>\<open>addCertificate\<close> reads the arguments, so an argument that refers to a
  string of an entry of this list (in any of the three positions) is read after the entry
  was destroyed. On the configuration with one entry, \<^verbatim>\<open>setCertificate\<close> called with that
  entry's own \<^verbatim>\<open>certPath\<close> reads a dangling reference, where \<^verbatim>\<open>addCertificate\<close> called
  with the same arguments appends the entry with that path. With arguments of the
  caller's own, \<^verbatim>\<open>setCertificate\<close> leaves the one entry with the given three strings and
  \<^verbatim>\<open>isBuffer\<close> false.
\<close>

theorem setCertificate_reads_cleared_argument:
  "setCertificate cfg (CertPathRef i) ky passwd = Inl DanglingReference
   \<and> setCertificate cfg (Val c) (KeyPathRef i) passwd = Inl DanglingReference
   \<and> setCertificate cfg (Val c) (Val k) (PasswordPathRef i) = Inl DanglingReference
   \<and> apply_calls example_config
        [AddCertificate (Val ''a.crt'') (Val ''a.key'') (Val ''a.pw''),
         SetCertificate (CertPathRef 0) (Val ''b.key'') (Val ''b.pw'')]
       = Inl DanglingReference
   \<and> apply_calls example_config
        [AddCertificate (Val ''a.crt'') (Val ''a.key'') (Val ''a.pw''),
         AddCertificate (CertPathRef 0) (Val ''b.key'') (Val ''b.pw'')]
       = Inr (example_config\<lparr>certificates :=
            [\<lparr>certPath = ''a.crt'', keyPath = ''a.key'', passwordPath = ''a.pw'', isBuffer = False\<rparr>,
             \<lparr>certPath = ''a.crt'', keyPath = ''b.key'', passwordPath = ''b.pw'', isBuffer = False\<rparr>]\<rparr>)
   \<and> setCertificate cfg (Val c) (Val k) (Val p)
       = Inr (cfg\<lparr>certificates :=
            [\<lparr>certPath = c, keyPath = k, passwordPath = p, isBuffer = False\<rparr>]\<rparr>)"
  by (simp add: setCertificate_def addCertificate_def CertificateInfo_paths_def certificates_new)

text \<open>The invariant of the buffer entries is kept by every call that returns.\<close>

lemma invariant_apply_call:
  assumes "\<forall>e\<in>set (certificates cfg). isBuffer e \<longrightarrow> passwordPath e = []"
    and "apply_call cfg c = Inr cfg'"
  shows "\<forall>e\<in>set (certificates cfg'). isBuffer e \<longrightarrow> passwordPath e = []"
  using apply_call_certificates [OF assms(2)] assms(1) by auto

lemma invariant_apply_calls:
  "\<forall>e\<in>set (certificates cfg). isBuffer e \<longrightarrow> passwordPath e = [] \<Longrightarrow>
   apply_calls cfg cs = Inr cfg' \<Longrightarrow>
   \<forall>e\<in>set (certificates cfg'). isBuffer e \<longrightarrow> passwordPath e = []"
proof (induction cs arbitrary: cfg)
  case Nil
  then show ?case by simp
next
  case (Cons c cs)
  from Cons.prems(2) obtain cfg1 where
    step: "apply_call cfg c = Inr cfg1" and rest: "apply_calls cfg1 cs = Inr cfg'"
    by (auto split: sum.splits)
  from Cons.prems(1) step
  have "\<forall>e\<in>set (certificates cfg1). isBuffer e \<longrightarrow> passwordPath e = []"
    by (rule invariant_apply_call)
  then show ?case using rest by (rule Cons.IH)
qed

text \<open>
  C3. Every certificate entry that the builder operations (\<^verbatim>\<open>setCertificate\<close>,
  \<^verbatim>\<open>addCertificate\<close>, \<^verbatim>\<open>setCertificateBuf\<close>, \<^verbatim>\<open>addCertificateBuf\<close>) produce has an empty
  \<^verbatim>\<open>passwordPath\<close> whenever its \<^verbatim>\<open>isBuffer\<close> is true: the property is kept by every sequence
  of builder calls on a configuration that has it, so it holds of every entry of a
  configuration built from a freshly constructed one; and a sequence of calls with
  arguments of the caller's own always returns a configuration. In particular,
  \<^verbatim>\<open>setCertificateBuf("CERT","KEY")\<close> returns the configuration whose sole entry has
  \<^verbatim>\<open>isBuffer\<close> true and an empty \<^verbatim>\<open>passwordPath\<close>.
\<close>

theorem buffer_entry_has_empty_password:
  assumes "\<forall>e\<in>set (certificates cfg). isBuffer e \<longrightarrow> passwordPath e = []"
  shows "(\<forall>cfg'. apply_calls cfg cs = Inr cfg' \<longrightarrow>
            (\<forall>e\<in>set (certificates cfg'). isBuffer e \<longrightarrow> passwordPath e = []))
   \<and> (\<forall>cfg'. apply_calls (fst (SSLContextConfig_new opts st)) cs = Inr cfg' \<longrightarrow>
            (\<forall>e\<in>set (certificates cfg'). isBuffer e \<longrightarrow> passwordPath e = []))
   \<and> (list_all is_value_call cs \<longrightarrow> (\<exists>cfg'. apply_calls cfg cs = Inr cfg'))
   \<and> setCertificateBuf cfg (Val ''CERT'') (Val ''KEY'')
       = Inr (cfg\<lparr>certificates :=
            [\<lparr>certPath = ''CERT'', keyPath = ''KEY'', passwordPath = [], isBuffer = True\<rparr>]\<rparr>)"
proof -
  have a: "\<forall>cfg'. apply_calls cfg cs = Inr cfg' \<longrightarrow>
            (\<forall>e\<in>set (certificates cfg'). isBuffer e \<longrightarrow> passwordPath e = [])"
    using assms invariant_apply_calls by blast
  have "\<forall>e\<in>set (certificates (fst (SSLContextConfig_new opts st))).
          isBuffer e \<longrightarrow> passwordPath e = []"
    by (simp add: certificates_new)
  then have b: "\<forall>cfg'. apply_calls (fst (SSLContextConfig_new opts st)) cs = Inr cfg' \<longrightarrow>
            (\<forall>e\<in>set (certificates cfg'). isBuffer e \<longrightarrow> passwordPath e = [])"
    using invariant_apply_calls by blast
  have c: "list_all is_value_call cs \<longrightarrow> (\<exists>cfg'. apply_calls cfg cs = Inr cfg')"
    using value_calls_return by blast
  have d: "setCertificateBuf cfg (Val ''CERT'') (Val ''KEY'')
       = Inr (cfg\<lparr>certificates :=
            [\<lparr>certPath = ''CERT'', keyPath = ''KEY'', passwordPath = [], isBuffer = True\<rparr>]\<rparr>)"
    by (rule setCertificateBuf_Val)
  from a b c d show ?thesis by blast
qed

theorem buffer_entry_has_empty_password_witness:
  "apply_calls example_config [AddCertificate (Val ''a.crt'') (Val ''a.key'') (Val ''a.pw'')]
     = Inr (example_config\<lparr>certificates :=
         [\<lparr>certPath = ''a.crt'', keyPath = ''a.key'', passwordPath = ''a.pw'', isBuffer = False\<rparr>]\<rparr>)
   \<and> apply_calls
       (example_config\<lparr>certificates :=
         [\<lparr>certPath = ''a.crt'', keyPath = ''a.key'', passwordPath = ''a.pw'', isBuffer = False\<rparr>]\<rparr>)
       [AddCertificate (Val ''b.crt'') (Val ''b.key'') (Val ''b.pw''),
        AddCertificateBuf (Val ''CERT'') (Val ''KEY'')]
     = Inr (example_config\<lparr>certificates :=
         [\<lparr>certPath = ''a.crt'', keyPath = ''a.key'', passwordPath = ''a.pw'', isBuffer = False\<rparr>,
          \<lparr>certPath = ''b.crt'', keyPath = ''b.key'', passwordPath = ''b.pw'', isBuffer = False\<rparr>,
          \<lparr>certPath = ''CERT'', keyPath = ''KEY'', passwordPath = [], isBuffer = True\<rparr>]\<rparr>)
   \<and> isBuffer (last (certificates (example_config\<lparr>certificates :=
         [\<lparr>certPath = ''a.crt'', keyPath = ''a.key'', passwordPath = ''a.pw'', isBuffer = False\<rparr>,
          \<lparr>certPath = ''b.crt'', keyPath = ''b.key'', passwordPath = ''b.pw'', isBuffer = False\<rparr>,
          \<lparr>certPath = ''CERT'', keyPath = ''KEY'', passwordPath = [], isBuffer = True\<rparr>]\<rparr>)))
   \<and> passwordPath (last (certificates (example_config\<lparr>certificates :=
         [\<lparr>certPath = ''a.crt'', keyPath = ''a.key'', passwordPath = ''a.pw'', isBuffer = False\<rparr>,
          \<lparr>certPath = ''b.crt'', keyPath = ''b.key'', passwordPath = ''b.pw'', isBuffer = False\<rparr>,
          \<lparr>certPath = ''CERT'', keyPath = ''KEY'', passwordPath = [], isBuffer = True\<rparr>]\<rparr>))) = []"
proof -
  let ?e1 = "\<lparr>certPath = ''a.crt'', keyPath = ''a.key'', passwordPath = ''a.pw'', isBuffer = False\<rparr>"
  let ?e2 = "\<lparr>certPath = ''b.crt'', keyPath = ''b.key'', passwordPath = ''b.pw'', isBuffer = False\<rparr>"
  let ?e3 = "\<lparr>certPath = ''CERT'', keyPath = ''KEY'', passwordPath = [], isBuffer = True\<rparr>"
  let ?cfg = "example_config\<lparr>certificates := [?e1]\<rparr>"
  let ?cs = "[AddCertificate (Val ''b.crt'') (Val ''b.key'') (Val ''b.pw''),
        AddCertificateBuf (Val ''CERT'') (Val ''KEY'')]"
  have h: "\<forall>e\<in>set (certificates ?cfg). isBuffer e \<longrightarrow> passwordPath e = []"
    by simp
  have first: "apply_calls example_config [AddCertificate (Val ''a.crt'') (Val ''a.key'') (Val ''a.pw'')]
     = Inr ?cfg"
    by (simp add: addCertificate_Val certificates_new)
  have run: "apply_calls ?cfg ?cs = Inr (example_config\<lparr>certificates := [?e1, ?e2, ?e3]\<rparr>)"
    by (simp add: addCertificate_Val addCertificateBuf_Val)
  from buffer_entry_has_empty_password [OF h, of ?cs] run
  have inv: "\<forall>e\<in>set (certificates (example_config\<lparr>certificates := [?e1, ?e2, ?e3]\<rparr>)).
      isBuffer e \<longrightarrow> passwordPath e = []"
    by blast
  then have "passwordPath (last (certificates (example_config\<lparr>certificates := [?e1, ?e2, ?e3]\<rparr>))) = []"
    by simp
  with first run show ?thesis by simp
qed

section \<open>Inconsistent certificate entries\<close>

lemma ambiguous_apply_call:
  assumes "apply_call cfg c = Inr cfg'"
  shows "length (filter ambiguous (certificates cfg'))
     \<le> length (filter ambiguous (certificates cfg))"
  using apply_call_certificates [OF assms] by (auto simp add: ambiguous_def)

lemma ambiguous_apply_calls:
  "apply_calls cfg cs = Inr cfg' \<Longrightarrow>
   length (filter ambiguous (certificates cfg'))
     \<le> length (filter ambiguous (certificates cfg))"
proof (induction cs arbitrary: cfg)
  case Nil
  then show ?case by simp
next
  case (Cons c cs)
  from Cons.prems obtain cfg1 where
    step: "apply_call cfg c = Inr cfg1" and rest: "apply_calls cfg1 cs = Inr cfg'"
    by (auto split: sum.splits)
  have "length (filter ambiguous (certificates cfg'))
      \<le> length (filter ambiguous (certificates cfg1))"
    using rest by (rule Cons.IH)
  also have "\<dots> \<le> length (filter ambiguous (certificates cfg))"
    using step by (rule ambiguous_apply_call)
  finally show ?case .
qed

text \<open>
  C6. No certificate entry that combines buffer semantics with a password locator is
  stored through the builder operations, because the builder boundary admits no such
  input when an entry is constructed: the constructor that takes a password locator
  always yields a file-sourced entry (\<^verbatim>\<open>isBuffer\<close> false), and the constructor with buffer
  semantics takes no password locator and yields an empty one. So a configuration built
  from a freshly constructed one by any sequence of builder calls holds no ambiguous
  entry, no sequence of builder calls raises the number of ambiguous entries of any
  configuration, and calls with arguments of the caller's own always return.
\<close>

theorem builder_stores_no_ambiguous_entry:
  "(\<forall>cfg'. apply_calls (fst (SSLContextConfig_new opts st)) cs = Inr cfg' \<longrightarrow>
       filter ambiguous (certificates cfg') = [])
   \<and> (\<forall>cfg'. apply_calls cfg cs = Inr cfg' \<longrightarrow>
       length (filter ambiguous (certificates cfg'))
         \<le> length (filter ambiguous (certificates cfg)))
   \<and> (list_all is_value_call cs \<longrightarrow> (\<exists>cfg'. apply_calls cfg cs = Inr cfg'))
   \<and> CertificateInfo_paths c k p
       = \<lparr>certPath = c, keyPath = k, passwordPath = p, isBuffer = False\<rparr>
   \<and> CertificateInfo_bufs c k
       = \<lparr>certPath = c, keyPath = k, passwordPath = [], isBuffer = True\<rparr>
   \<and> \<not> ambiguous (CertificateInfo_paths c k p)
   \<and> \<not> ambiguous (CertificateInfo_bufs c k)"
proof -
  have a: "\<forall>cfg'. apply_calls (fst (SSLContextConfig_new opts st)) cs = Inr cfg' \<longrightarrow>
       filter ambiguous (certificates cfg') = []"
  proof (intro allI impI)
    fix cfg'
    assume "apply_calls (fst (SSLContextConfig_new opts st)) cs = Inr cfg'"
    then have "length (filter ambiguous (certificates cfg'))
        \<le> length (filter ambiguous (certificates (fst (SSLContextConfig_new opts st))))"
      by (rule ambiguous_apply_calls)
    then show "filter ambiguous (certificates cfg') = []"
      by (simp add: certificates_new)
  qed
  have b: "\<forall>cfg'. apply_calls cfg cs = Inr cfg' \<longrightarrow>
       length (filter ambiguous (certificates cfg'))
         \<le> length (filter ambiguous (certificates cfg))"
    using ambiguous_apply_calls by blast
  have c: "list_all is_value_call cs \<longrightarrow> (\<exists>cfg'. apply_calls cfg cs = Inr cfg')"
    using value_calls_return by blast
  have d: "CertificateInfo_paths c k p
       = \<lparr>certPath = c, keyPath = k, passwordPath = p, isBuffer = False\<rparr>
   \<and> CertificateInfo_bufs c k
       = \<lparr>certPath = c, keyPath = k, passwordPath = [], isBuffer = True\<rparr>
   \<and> \<not> ambiguous (CertificateInfo_paths c k p)
   \<and> \<not> ambiguous (CertificateInfo_bufs c k)"
    by (simp add: CertificateInfo_paths_def CertificateInfo_bufs_def ambiguous_def)
  from a b c d show ?thesis by blast
qed

theorem builder_stores_no_ambiguous_entry_witness:
  "apply_calls example_config
       [SetCertificateBuf (Val ''CERT'') (Val ''KEY''),
        AddCertificate (Val ''a.crt'') (Val ''a.key'') (Val ''a.pw''),
        AddCertificateBuf (PasswordPathRef 1) (KeyPathRef 0)]
     = Inr (example_config\<lparr>certificates :=
         [\<lparr>certPath = ''CERT'', keyPath = ''KEY'', passwordPath = [], isBuffer = True\<rparr>,
          \<lparr>certPath = ''a.crt'', keyPath = ''a.key'', passwordPath = ''a.pw'', isBuffer = False\<rparr>,
          \<lparr>certPath = ''a.pw'', keyPath = ''KEY'', passwordPath = [], isBuffer = True\<rparr>]\<rparr>)
   \<and> filter ambiguous (certificates (example_config\<lparr>certificates :=
         [\<lparr>certPath = ''CERT'', keyPath = ''KEY'', passwordPath = [], isBuffer = True\<rparr>,
          \<lparr>certPath = ''a.crt'', keyPath = ''a.key'', passwordPath = ''a.pw'', isBuffer = False\<rparr>,
          \<lparr>certPath = ''a.pw'', keyPath = ''KEY'', passwordPath = [], isBuffer = True\<rparr>]\<rparr>)) = []"
proof -
  let ?cs = "[SetCertificateBuf (Val ''CERT'') (Val ''KEY''),
        AddCertificate (Val ''a.crt'') (Val ''a.key'') (Val ''a.pw''),
        AddCertificateBuf (PasswordPathRef 1) (KeyPathRef 0)]"
  let ?r = "example_config\<lparr>certificates :=
         [\<lparr>certPath = ''CERT'', keyPath = ''KEY'', passwordPath = [], isBuffer = True\<rparr>,
          \<lparr>certPath = ''a.crt'', keyPath = ''a.key'', passwordPath = ''a.pw'', isBuffer = False\<rparr>,
          \<lparr>certPath = ''a.pw'', keyPath = ''KEY'', passwordPath = [], isBuffer = True\<rparr>]\<rparr>"
  have run: "apply_calls example_config ?cs = Inr ?r"
    by (simp add: setCertificateBuf_Val addCertificate_Val addCertificateBuf_def
        CertificateInfo_bufs_def)
  from builder_stores_no_ambiguous_entry [of example_options statics_init ?cs] run
  have "filter ambiguous (certificates ?r) = []" by blast
  with run show ?thesis by simp
qed

section \<open>Delegated credentials\<close>

text \<open>
  C7, as the specification states it, says that after every sequence of
  \<^verbatim>\<open>setDelegatedCredential\<close> and \<^verbatim>\<open>addDelegatedCredential\<close> calls the list holds the net
  effect read left to right, each entry with the given combined-certificate path. The
  source does not do this for every call. \<^verbatim>\<open>setDelegatedCredential\<close> clears the list before \<^verbatim>\<open>addDelegatedCredential\<close> reads
  the argument, so an argument that refers to the path of an entry of this list is read
  after the entry was destroyed. On the configuration with one credential,
  \<^verbatim>\<open>setDelegatedCredential\<close> called with that credential's own path reads a dangling
  reference, where \<^verbatim>\<open>addDelegatedCredential\<close> called with the same argument appends the
  entry with that path. With an argument of the caller's own, the set operation leaves
  the one entry with the given path and the add operation appends it.
\<close>

theorem setDelegatedCredential_reads_cleared_argument:
  "setDelegatedCredential cfg (CombinedCertPathRef i) = Inl DanglingReference
   \<and> apply_calls example_config
        [AddDelegatedCredential (Val ''a.pem''), SetDelegatedCredential (CombinedCertPathRef 0)]
       = Inl DanglingReference
   \<and> apply_calls example_config
        [AddDelegatedCredential (Val ''a.pem''), AddDelegatedCredential (CombinedCertPathRef 0)]
       = Inr (example_config\<lparr>delegatedCredentials :=
            [\<lparr>combinedCertPath = ''a.pem''\<rparr>, \<lparr>combinedCertPath = ''a.pem''\<rparr>]\<rparr>)
   \<and> setDelegatedCredential cfg (Val p)
       = Inr (cfg\<lparr>delegatedCredentials := [\<lparr>combinedCertPath = p\<rparr>]\<rparr>)
   \<and> addDelegatedCredential cfg (Val p)
       = Inr (cfg\<lparr>delegatedCredentials :=
            delegatedCredentials cfg @ [\<lparr>combinedCertPath = p\<rparr>]\<rparr>)"
  by (simp add: setDelegatedCredential_def addDelegatedCredential_def delegatedCredentials_new)

section \<open>Protocol-negotiation advertisement\<close>

text \<open>
  C4, as the specification states it, says that for every list of protocol names
  \<^verbatim>\<open>setNextProtocols\<close> discards the advertisement entries and leaves exactly one entry, of
  weight 1, with the given names in order. The source does not do this for every call. It clears \<^verbatim>\<open>nextProtocols\<close> before
  \<^verbatim>\<open>emplace_back\<close> copies the argument, so an argument that refers to the name list of an
  entry of \<^verbatim>\<open>nextProtocols\<close> itself is read after the entry was destroyed: after
  \<^verbatim>\<open>setNextProtocols\<close> with h2, http/1.1, the call with the first entry's own list reads a
  dangling reference. With a list of the caller's own, the operation leaves the one entry
  of weight 1 with that list.
\<close>

theorem setNextProtocols_reads_cleared_argument:
  "setNextProtocols cfg (ProtocolsRef i) = Inl DanglingReference
   \<and> apply_calls example_config
        [SetNextProtocols (ListVal [''h2'', ''http/1.1'']), SetNextProtocols (ProtocolsRef 0)]
       = Inl DanglingReference
   \<and> setNextProtocols cfg (ListVal L) = Inr (cfg\<lparr>nextProtocols := [\<lparr>weight = 1, protocols = L\<rparr>]\<rparr>)
   \<and> setNextProtocols cfg (ListVal [''h2'', ''http/1.1''])
       = Inr (cfg\<lparr>nextProtocols := [\<lparr>weight = 1, protocols = [''h2'', ''http/1.1'']\<rparr>]\<rparr>)"
  by (simp add: setNextProtocols_def)



section \<open>Default policy strings\<close>

text \<open>
  C5. Two configurations constructed one after the other in the same process carry the
  same three default strings (\<^verbatim>\<open>sslCiphers\<close>, \<^verbatim>\<open>sslCiphersuites\<close>, \<^verbatim>\<open>sigAlgs\<close>), whatever the
  state of the statics before the first construction. The second construction computes
  nothing: it leaves the statics as the first left them, and it returns the first one's
  strings even if the canonical lists it is handed (\<open>o2\<close>) differ from those of the first
  (\<open>o1\<close>). In a process whose statics are not yet initialised, each string is the join,
  with a colon, of the canonical list the first construction read.
\<close>

theorem default_strings_shared:
  "sslCiphers (fst (SSLContextConfig_new o2 (snd (SSLContextConfig_new o1 st))))
      = sslCiphers (fst (SSLContextConfig_new o1 st))
   \<and> sslCiphersuites (fst (SSLContextConfig_new o2 (snd (SSLContextConfig_new o1 st))))
      = sslCiphersuites (fst (SSLContextConfig_new o1 st))
   \<and> sigAlgs (fst (SSLContextConfig_new o2 (snd (SSLContextConfig_new o1 st))))
      = sigAlgs (fst (SSLContextConfig_new o1 st))
   \<and> snd (SSLContextConfig_new o2 (snd (SSLContextConfig_new o1 st))) = snd (SSLContextConfig_new o1 st)
   \<and> sslCiphers (fst (SSLContextConfig_new o1 statics_init)) = join CHR '':'' (ciphers o1)
   \<and> sslCiphersuites (fst (SSLContextConfig_new o1 statics_init)) = join CHR '':'' (ciphersuites o1)
   \<and> sigAlgs (fst (SSLContextConfig_new o1 statics_init)) = join CHR '':'' (sigalgs o1)"
proof -
  have two: "SSLContextConfig_new o2 (snd (SSLContextConfig_new o1 st))
      = (fst (SSLContextConfig_new o1 st), snd (SSLContextConfig_new o1 st))"
    by (cases st)
     (simp add: SSLContextConfig_new_def getDefaultCiphers_def getDefaultCiphersuites_def
       getDefaultSigAlgs_def split: option.splits)
  have init: "sslCiphers (fst (SSLContextConfig_new o1 statics_init)) = join CHR '':'' (ciphers o1)
   \<and> sslCiphersuites (fst (SSLContextConfig_new o1 statics_init)) = join CHR '':'' (ciphersuites o1)
   \<and> sigAlgs (fst (SSLContextConfig_new o1 statics_init)) = join CHR '':'' (sigalgs o1)"
    by (simp add: SSLContextConfig_new_def getDefaultCiphers_def getDefaultCiphersuites_def
       getDefaultSigAlgs_def statics_init_def)
  from two init show ?thesis by simp
qed

section \<open>Defaults of a freshly constructed configuration\<close>

text \<open>
  C8. A freshly constructed configuration has the key-offload defaults: the set of key
  types to offload is empty, the service identifier is the string default, certificate
  offload is not enabled, and \<^verbatim>\<open>offloadDisabled\<close> is true.
\<close>

theorem key_offload_defaults:
  "offloadType (keyOffloadParams (fst (SSLContextConfig_new opts st))) = {}
   \<and> serviceId (keyOffloadParams (fst (SSLContextConfig_new opts st))) = ''default''
   \<and> enableCertOffload (keyOffloadParams (fst (SSLContextConfig_new opts st))) = False
   \<and> offloadDisabled (fst (SSLContextConfig_new opts st)) = True"
  by (simp add: SSLContextConfig_new_def KeyOffloadParams_default_def split: prod.splits)

lemma client_fields_apply_call:
  assumes "apply_call cfg c = Inr cfg'"
  shows "clientVerification cfg' = clientVerification cfg
   \<and> clientCAFile cfg' = clientCAFile cfg
   \<and> clientCAFiles cfg' = clientCAFiles cfg"
proof (cases c)
  case (SetCertificate x1 x2 x3)
  with assms setCertificate_Inr [of cfg x1 x2 x3 cfg'] show ?thesis by auto
next
  case (AddCertificate x1 x2 x3)
  with assms addCertificate_Inr [of cfg x1 x2 x3 cfg'] show ?thesis by auto
next
  case (SetCertificateBuf x1 x2)
  with assms setCertificateBuf_Inr [of cfg x1 x2 cfg'] show ?thesis by auto
next
  case (AddCertificateBuf x1 x2)
  with assms addCertificateBuf_Inr [of cfg x1 x2 cfg'] show ?thesis by auto
next
  case (SetDelegatedCredential x)
  with assms setDelegatedCredential_Inr [of cfg x cfg'] show ?thesis by auto
next
  case (AddDelegatedCredential x)
  with assms addDelegatedCredential_Inr [of cfg x cfg'] show ?thesis by auto
next
  case (SetNextProtocols x)
  with assms setNextProtocols_Inr [of cfg x cfg'] show ?thesis by auto
qed

lemma client_fields_apply_calls:
  "apply_calls cfg cs = Inr cfg' \<Longrightarrow>
   clientVerification cfg' = clientVerification cfg
   \<and> clientCAFile cfg' = clientCAFile cfg
   \<and> clientCAFiles cfg' = clientCAFiles cfg"
proof (induction cs arbitrary: cfg)
  case Nil
  then show ?case by simp
next
  case (Cons c cs)
  from Cons.prems obtain cfg1 where
    step: "apply_call cfg c = Inr cfg1" and rest: "apply_calls cfg1 cs = Inr cfg'"
    by (auto split: sum.splits)
  from Cons.IH [OF rest] client_fields_apply_call [OF step] show ?case by simp
qed

text \<open>
  C9. A freshly constructed configuration verifies client certificates always, and its
  client trust material is empty: \<^verbatim>\<open>clientCAFile\<close> is the empty string and \<^verbatim>\<open>clientCAFiles\<close>
  the empty list. No operation of the component rejects this combination: a sequence of
  builder calls with arguments of the caller's own always returns a configuration, and
  whenever a sequence of builder calls returns, the configuration still holds the
  combination.
\<close>

theorem always_verify_without_trust_files:
  "clientVerification (fst (SSLContextConfig_new opts st)) = ALWAYS
   \<and> clientCAFile (fst (SSLContextConfig_new opts st)) = []
   \<and> clientCAFiles (fst (SSLContextConfig_new opts st)) = []
   \<and> (\<forall>cfg'. apply_calls (fst (SSLContextConfig_new opts st)) cs = Inr cfg' \<longrightarrow>
         clientVerification cfg' = ALWAYS \<and> clientCAFile cfg' = [] \<and> clientCAFiles cfg' = [])
   \<and> (list_all is_value_call cs \<longrightarrow>
         (\<exists>cfg'. apply_calls (fst (SSLContextConfig_new opts st)) cs = Inr cfg'))"
proof -
  have fresh: "clientVerification (fst (SSLContextConfig_new opts st)) = ALWAYS
   \<and> clientCAFile (fst (SSLContextConfig_new opts st)) = []
   \<and> clientCAFiles (fst (SSLContextConfig_new opts st)) = []"
    by (simp add: SSLContextConfig_new_def split: prod.splits)
  have kept: "\<forall>cfg'. apply_calls (fst (SSLContextConfig_new opts st)) cs = Inr cfg' \<longrightarrow>
         clientVerification cfg' = ALWAYS \<and> clientCAFile cfg' = [] \<and> clientCAFiles cfg' = []"
    using client_fields_apply_calls [of "fst (SSLContextConfig_new opts st)" cs] fresh by simp
  have returns: "list_all is_value_call cs \<longrightarrow>
         (\<exists>cfg'. apply_calls (fst (SSLContextConfig_new opts st)) cs = Inr cfg')"
    using value_calls_return by blast
  from fresh kept returns show ?thesis by blast
qed

theorem always_verify_without_trust_files_witness:
  "apply_calls example_config
       [SetCertificate (Val ''a.crt'') (Val ''a.key'') (Val ''a.pw''),
        AddDelegatedCredential (Val ''a.pem''),
        SetNextProtocols (ListVal [''h2'', ''http/1.1''])]
     = Inr (example_config
         \<lparr>certificates :=
            [\<lparr>certPath = ''a.crt'', keyPath = ''a.key'', passwordPath = ''a.pw'', isBuffer = False\<rparr>],
          delegatedCredentials := [\<lparr>combinedCertPath = ''a.pem''\<rparr>],
          nextProtocols := [\<lparr>weight = 1, protocols = [''h2'', ''http/1.1'']\<rparr>]\<rparr>)
   \<and> clientVerification (example_config
         \<lparr>certificates :=
            [\<lparr>certPath = ''a.crt'', keyPath = ''a.key'', passwordPath = ''a.pw'', isBuffer = False\<rparr>],
          delegatedCredentials := [\<lparr>combinedCertPath = ''a.pem''\<rparr>],
          nextProtocols := [\<lparr>weight = 1, protocols = [''h2'', ''http/1.1'']\<rparr>]\<rparr>) = ALWAYS
   \<and> clientCAFile example_config = []
   \<and> clientCAFiles example_config = []"
proof -
  let ?cs = "[SetCertificate (Val ''a.crt'') (Val ''a.key'') (Val ''a.pw''),
        AddDelegatedCredential (Val ''a.pem''),
        SetNextProtocols (ListVal [''h2'', ''http/1.1''])]"
  let ?r = "example_config
         \<lparr>certificates :=
            [\<lparr>certPath = ''a.crt'', keyPath = ''a.key'', passwordPath = ''a.pw'', isBuffer = False\<rparr>],
          delegatedCredentials := [\<lparr>combinedCertPath = ''a.pem''\<rparr>],
          nextProtocols := [\<lparr>weight = 1, protocols = [''h2'', ''http/1.1'']\<rparr>]\<rparr>"
  have run: "apply_calls example_config ?cs = Inr ?r"
    by (simp add: setCertificate_Val addDelegatedCredential_Val setNextProtocols_Val
        delegatedCredentials_new)
  note inst = always_verify_without_trust_files [of example_options statics_init ?cs]
  from inst run have "clientVerification ?r = ALWAYS" by blast
  moreover from inst have "clientCAFile example_config = [] \<and> clientCAFiles example_config = []"
    by blast
  ultimately show ?thesis using run by blast
qed

section \<open>Frame of the builder operations\<close>

text \<open>
  C10. Each certificate builder operation changes only the \<^verbatim>\<open>certificates\<close> list:
  whenever it returns, putting the old list back gives the configuration as it was, so
  every other field (including the fields of a subclass) is unchanged. Likewise the
  delegated-credential operations change only \<^verbatim>\<open>delegatedCredentials\<close>, and
  \<^verbatim>\<open>setNextProtocols\<close> changes only \<^verbatim>\<open>nextProtocols\<close>. With arguments of the caller's own,
  each of the seven operations returns.
\<close>

theorem builder_frame:
  "(\<forall>cfg'. setCertificate cfg a b c = Inr cfg' \<longrightarrow> cfg'\<lparr>certificates := certificates cfg\<rparr> = cfg)
 \<and> (\<forall>cfg'. addCertificate cfg a b c = Inr cfg' \<longrightarrow> cfg'\<lparr>certificates := certificates cfg\<rparr> = cfg)
 \<and> (\<forall>cfg'. setCertificateBuf cfg a b = Inr cfg' \<longrightarrow> cfg'\<lparr>certificates := certificates cfg\<rparr> = cfg)
 \<and> (\<forall>cfg'. addCertificateBuf cfg a b = Inr cfg' \<longrightarrow> cfg'\<lparr>certificates := certificates cfg\<rparr> = cfg)
 \<and> (\<forall>cfg'. setDelegatedCredential cfg a = Inr cfg' \<longrightarrow>
        cfg'\<lparr>delegatedCredentials := delegatedCredentials cfg\<rparr> = cfg)
 \<and> (\<forall>cfg'. addDelegatedCredential cfg a = Inr cfg' \<longrightarrow>
        cfg'\<lparr>delegatedCredentials := delegatedCredentials cfg\<rparr> = cfg)
 \<and> (\<forall>cfg'. setNextProtocols cfg l = Inr cfg' \<longrightarrow> cfg'\<lparr>nextProtocols := nextProtocols cfg\<rparr> = cfg)
 \<and> (\<exists>cfg'. setCertificate cfg (Val x) (Val y) (Val z) = Inr cfg')
 \<and> (\<exists>cfg'. addCertificate cfg (Val x) (Val y) (Val z) = Inr cfg')
 \<and> (\<exists>cfg'. setCertificateBuf cfg (Val x) (Val y) = Inr cfg')
 \<and> (\<exists>cfg'. addCertificateBuf cfg (Val x) (Val y) = Inr cfg')
 \<and> (\<exists>cfg'. setDelegatedCredential cfg (Val x) = Inr cfg')
 \<and> (\<exists>cfg'. addDelegatedCredential cfg (Val x) = Inr cfg')
 \<and> (\<exists>cfg'. setNextProtocols cfg (ListVal L) = Inr cfg')"
proof -
  have 1: "\<forall>cfg'. setCertificate cfg a b c = Inr cfg' \<longrightarrow> cfg'\<lparr>certificates := certificates cfg\<rparr> = cfg"
    using setCertificate_Inr [of cfg a b c] by auto
  have 2: "\<forall>cfg'. addCertificate cfg a b c = Inr cfg' \<longrightarrow> cfg'\<lparr>certificates := certificates cfg\<rparr> = cfg"
    using addCertificate_Inr [of cfg a b c] by auto
  have 3: "\<forall>cfg'. setCertificateBuf cfg a b = Inr cfg' \<longrightarrow> cfg'\<lparr>certificates := certificates cfg\<rparr> = cfg"
    using setCertificateBuf_Inr [of cfg a b] by auto
  have 4: "\<forall>cfg'. addCertificateBuf cfg a b = Inr cfg' \<longrightarrow> cfg'\<lparr>certificates := certificates cfg\<rparr> = cfg"
    using addCertificateBuf_Inr [of cfg a b] by auto
  have 5: "\<forall>cfg'. setDelegatedCredential cfg a = Inr cfg' \<longrightarrow>
        cfg'\<lparr>delegatedCredentials := delegatedCredentials cfg\<rparr> = cfg"
    using setDelegatedCredential_Inr [of cfg a] by auto
  have 6: "\<forall>cfg'. addDelegatedCredential cfg a = Inr cfg' \<longrightarrow>
        cfg'\<lparr>delegatedCredentials := delegatedCredentials cfg\<rparr> = cfg"
    using addDelegatedCredential_Inr [of cfg a] by auto
  have 7: "\<forall>cfg'. setNextProtocols cfg l = Inr cfg' \<longrightarrow> cfg'\<lparr>nextProtocols := nextProtocols cfg\<rparr> = cfg"
    using setNextProtocols_Inr [of cfg l] by auto
  have 8: "(\<exists>cfg'. setCertificate cfg (Val x) (Val y) (Val z) = Inr cfg')
 \<and> (\<exists>cfg'. addCertificate cfg (Val x) (Val y) (Val z) = Inr cfg')
 \<and> (\<exists>cfg'. setCertificateBuf cfg (Val x) (Val y) = Inr cfg')
 \<and> (\<exists>cfg'. addCertificateBuf cfg (Val x) (Val y) = Inr cfg')
 \<and> (\<exists>cfg'. setDelegatedCredential cfg (Val x) = Inr cfg')
 \<and> (\<exists>cfg'. addDelegatedCredential cfg (Val x) = Inr cfg')
 \<and> (\<exists>cfg'. setNextProtocols cfg (ListVal L) = Inr cfg')"
    by (simp add: setCertificate_Val addCertificate_Val setCertificateBuf_Val
        addCertificateBuf_Val setDelegatedCredential_Val addDelegatedCredential_Val
        setNextProtocols_Val)
  from 1 2 3 4 5 6 7 8 show ?thesis by blast
qed

theorem builder_frame_witness:
  "setCertificate example_config (Val ''a.crt'') (Val ''a.key'') (Val ''a.pw'')
     = Inr (example_config\<lparr>certificates :=
         [\<lparr>certPath = ''a.crt'', keyPath = ''a.key'', passwordPath = ''a.pw'', isBuffer = False\<rparr>]\<rparr>)
   \<and> (example_config\<lparr>certificates :=
         [\<lparr>certPath = ''a.crt'', keyPath = ''a.key'', passwordPath = ''a.pw'', isBuffer = False\<rparr>]\<rparr>)
        \<lparr>certificates := certificates example_config\<rparr>
       = example_config"
proof -
  let ?r = "example_config\<lparr>certificates :=
         [\<lparr>certPath = ''a.crt'', keyPath = ''a.key'', passwordPath = ''a.pw'', isBuffer = False\<rparr>]\<rparr>"
  have run: "setCertificate example_config (Val ''a.crt'') (Val ''a.key'') (Val ''a.pw'') = Inr ?r"
    by (rule setCertificate_Val)
  note inst = builder_frame [where cfg = example_config and a = "Val ''a.crt''"
      and b = "Val ''a.key''" and c = "Val ''a.pw''", THEN conjunct1]
  from inst run have "?r\<lparr>certificates := certificates example_config\<rparr> = example_config"
    by blast
  with run show ?thesis by blast
qed

end
